theory Spec2Isabelle
  imports Complex_Main
begin

section \<open>JavaScript values and errors\<close>

text \<open>
  The audit subsystem of Station-Manager is TypeScript running on Node/Express. Values
  that the code reads dynamically (a response body, a parsed JSON payload, a request
  body) are modelled by \<open>jsval\<close>. Numbers are rationals: only whether a number is zero
  matters to the code modelled here. An object is a list of its own properties, in
  order; \<open>map_of\<close> reads a property.
\<close>

datatype jsval =
    JUndefined
  | JNull
  | JBool bool
  | JNum rat
  | JStr string
  | JArr "jsval list"
  | JObj "(string \<times> jsval) list"
  | JBuffer "nat list"

datatype js_error =
    TypeError
  | SyntaxError
  | DatabaseError
  | Thrown string

text \<open>JavaScript truthiness, as used by \<open>if (v)\<close> and \<open>a && b\<close>.\<close>

fun truthy :: "jsval \<Rightarrow> bool" where
  "truthy JUndefined = False"
| "truthy JNull = False"
| "truthy (JBool b) = b"
| "truthy (JNum n) = (n \<noteq> 0)"
| "truthy (JStr s) = (s \<noteq> [])"
| "truthy (JArr _) = True"
| "truthy (JObj _) = True"
| "truthy (JBuffer _) = True"

text \<open>
  The property read \<open>v.k\<close>, for the property names the audit code reads (\<open>data\<close>, \<open>id\<close>,
  \<open>user\<close>, \<open>station\<close>, \<open>profile\<close>, \<open>backup\<close>, \<open>reminder\<close>, \<open>role\<close>): reading a property
  of \<open>null\<close> or \<open>undefined\<close> throws a TypeError, an object yields its own property or
  \<open>undefined\<close>, and no primitive, array or buffer has a property of one of these names.
\<close>

fun get_prop :: "jsval \<Rightarrow> string \<Rightarrow> js_error + jsval" where
  "get_prop JUndefined k = Inl TypeError"
| "get_prop JNull k = Inl TypeError"
| "get_prop (JObj kvs) k = Inr (case map_of kvs k of None \<Rightarrow> JUndefined | Some v \<Rightarrow> v)"
| "get_prop _ k = Inr JUndefined"

definition bind_err :: "'e + 'a \<Rightarrow> ('a \<Rightarrow> 'e + 'b) \<Rightarrow> 'e + 'b" where
  "bind_err m f = (case m of Inl e \<Rightarrow> Inl e | Inr v \<Rightarrow> f v)"

section \<open>The Event Store and its surroundings\<close>

text \<open>
  \<open>models/auditlog.ts\<close>: a row of the AuditLogs table. \<open>targetId\<close> is typed \<open>string\<close> in
  TypeScript, but the interception adapter assigns it from a parsed payload of type
  \<open>any\<close>, so the model keeps the JavaScript value.
\<close>

record auditlog =
  log_id :: string
  log_userId :: string
  log_action :: string
  log_targetType :: string
  log_targetId :: jsval
  log_timestamp :: int
  log_ipAddress :: string

text \<open>The Users table (\<open>models/user.ts\<close>).\<close>

record user_row =
  user_id :: string
  firstName :: string
  lastName :: string
  username :: string
  password :: string
  user_status :: string
  roleId :: string

text \<open>The Stations table (\<open>models/station.ts\<close>).\<close>

record station_row =
  station_id :: string
  stationName :: string
  serialNumber :: string
  location :: string
  createdBy :: "string option"

text \<open>
  The state the handlers run against. \<open>audit_logs\<close> is the Event Store in insertion
  order. \<open>rejects\<close> says which inserts into it fail in this state (the store is down, a
  constraint of the table is violated, ...): it is arbitrary, so that every way the
  store can fail is covered. \<open>db_up\<close> says whether the other queries (on the business
  tables, and the reads of the Event Store) succeed. \<open>console\<close> is the diagnostics channel written by \<open>console.error\<close>.
  \<open>pending\<close> holds the calls of \<open>createAuditLog\<close> that the interception adapter has
  started without awaiting them.
\<close>

record audit_call =
  call_userId :: string
  call_action :: string
  call_targetType :: string
  call_targetId :: jsval
  call_ipAddress :: string

record world =
  audit_logs :: "auditlog list"
  rejects :: "auditlog \<Rightarrow> bool"
  users :: "user_row list"
  stations :: "station_row list"
  db_up :: bool
  console :: "string list"
  pending :: "audit_call list"

text \<open>
  What a call reads from its environment: \<open>new Date()\<close> and the UUIDv4 that Sequelize
  generates for a new row.
\<close>

record env =
  now :: int
  uuid :: string

definition console_error :: "string \<Rightarrow> world \<Rightarrow> world" where
  "console_error msg w = w\<lparr>console := console w @ [msg]\<rparr>"

section \<open>The request\<close>

record actor =
  userId :: string

record request =
  params :: "string \<rightharpoonup> string"
  user :: "actor option"
  x_forwarded_for :: "string option"
  connection_remoteAddress :: "string option"
  socket_remoteAddress :: "string option"

text \<open>
  \<open>getClientIP\<close> (auditLogController): the first entry of the forwarded-address header,
  else the peer address of the connection, else that of the socket, else \<open>0.0.0.0\<close>;
  \<open>||\<close> skips an empty string as it skips \<open>undefined\<close>.
\<close>

definition or_else :: "string option \<Rightarrow> string \<Rightarrow> string" where
  "or_else a b = (case a of None \<Rightarrow> b | Some s \<Rightarrow> if s = [] then b else s)"

definition getClientIP :: "request \<Rightarrow> string" where
  "getClientIP req =
     or_else (map_option (takeWhile (\<lambda>c. c \<noteq> CHR '','')) (x_forwarded_for req))
       (or_else (connection_remoteAddress req)
         (or_else (socket_remoteAddress req) ''0.0.0.0''))"

section \<open>The recorder\<close>

text \<open>
  \<open>AuditLog.create\<close> of Sequelize: the insert either fails, leaving the table as it
  was, or appends the new row.
\<close>

definition AuditLog_create :: "env \<Rightarrow> audit_call \<Rightarrow> world \<Rightarrow> (js_error + auditlog) \<times> world" where
  "AuditLog_create e c w =
     (let r = \<lparr> log_id = uuid e, log_userId = call_userId c, log_action = call_action c,
                log_targetType = call_targetType c, log_targetId = call_targetId c,
                log_timestamp = now e, log_ipAddress = call_ipAddress c \<rparr>
      in if rejects w r then (Inl DatabaseError, w)
         else (Inr r, w\<lparr>audit_logs := audit_logs w @ [r]\<rparr>))"

text \<open>
  \<open>createAuditLog\<close> (auditLogController): the insert inside \<open>try\<close>, the \<open>catch\<close> writing to
  the console and not rethrowing. The first component of the result is how the call
  ends: \<open>Inr ()\<close> when it returns, \<open>Inl e\<close> when it throws \<open>e\<close> to its caller.
\<close>

definition createAuditLog ::
  "env \<Rightarrow> string \<Rightarrow> string \<Rightarrow> string \<Rightarrow> jsval \<Rightarrow> string \<Rightarrow> world \<Rightarrow> (js_error + unit) \<times> world" where
  "createAuditLog e uid action targetType targetId ipAddress w =
     (case AuditLog_create e
             \<lparr> call_userId = uid, call_action = action, call_targetType = targetType,
               call_targetId = targetId, call_ipAddress = ipAddress \<rparr> w of
        (Inr _, w') \<Rightarrow> (Inr (), w')
      | (Inl err, w') \<Rightarrow> (Inr (), console_error ''Error creating audit log:'' w'))"

section \<open>The target resolver and the interception adapter\<close>

record response =
  statusCode :: int

text \<open>
  The optional third argument of \<open>auditLog\<close>, \<open>getTargetId(req, res)\<close>: a function of the
  caller, which returns a string or throws.
\<close>

type_synonym resolver = "request \<Rightarrow> response \<Rightarrow> js_error + string"

text \<open>
  \<open>req.params.k\<close> as the condition of an \<open>if\<close> and then as the value assigned: \<open>Some s\<close>
  when the parameter is present and not the empty string.
\<close>

definition param :: "request \<Rightarrow> string \<Rightarrow> string option" where
  "param req k = (case params req k of None \<Rightarrow> None | Some s \<Rightarrow> if s = [] then None else Some s)"

text \<open>The value of \<open>parsedBody.data && parsedBody.data.id\<close>.\<close>

definition data_id :: "jsval \<Rightarrow> js_error + jsval" where
  "data_id parsedBody =
     bind_err (get_prop parsedBody ''data'')
       (\<lambda>d. if truthy d then get_prop d ''id'' else Inr d)"

text \<open>The value of \<open>parsedBody.data && parsedBody.data.k && parsedBody.data.k.id\<close>.\<close>

definition data_sub_id :: "string \<Rightarrow> jsval \<Rightarrow> js_error + jsval" where
  "data_sub_id k parsedBody =
     bind_err (get_prop parsedBody ''data'')
       (\<lambda>d. if truthy d
            then bind_err (get_prop d k) (\<lambda>s. if truthy s then get_prop s ''id'' else Inr s)
            else Inr d)"

text \<open>
  The \<open>if\<close>/\<open>else if\<close> chain over the parsed payload (auditLogger.ts, lines 83 to 97):
  \<open>Some v\<close> when a branch assigns \<open>v\<close> to \<open>targetId\<close>, \<open>None\<close> when no branch is taken,
  \<open>Inl\<close> when evaluating a condition throws.
\<close>

definition payload_walk :: "jsval \<Rightarrow> js_error + jsval option" where
  "payload_walk parsedBody =
     bind_err (data_id parsedBody) (\<lambda>v. if truthy v then Inr (Some v) else
     bind_err (data_sub_id ''user'' parsedBody) (\<lambda>v. if truthy v then Inr (Some v) else
     bind_err (data_sub_id ''station'' parsedBody) (\<lambda>v. if truthy v then Inr (Some v) else
     bind_err (data_sub_id ''profile'' parsedBody) (\<lambda>v. if truthy v then Inr (Some v) else
     bind_err (data_sub_id ''backup'' parsedBody) (\<lambda>v. if truthy v then Inr (Some v) else
     bind_err (data_sub_id ''reminder'' parsedBody) (\<lambda>v. if truthy v then Inr (Some v) else
     bind_err (data_sub_id ''role'' parsedBody) (\<lambda>v. if truthy v then Inr (Some v) else
     Inr None)))))))"

text \<open>
  The inner \<open>try\<close> (lines 81 to 100): parse the body, walk it; a parse error or an error
  of the walk is caught and leaves \<open>targetId\<close> at \<open>unknown\<close>. \<open>JSON_parse\<close> is the
  JavaScript built-in, a parameter of the model.
\<close>

definition from_body :: "(string \<Rightarrow> js_error + jsval) \<Rightarrow> string \<Rightarrow> jsval" where
  "from_body JSON_parse s =
     (case bind_err (JSON_parse s) payload_walk of
        Inl parseError \<Rightarrow> JStr ''unknown''
      | Inr None \<Rightarrow> JStr ''unknown''
      | Inr (Some v) \<Rightarrow> v)"

text \<open>
  Lines 68 to 101: the value of \<open>targetId\<close> when line 103 is reached, or the error
  thrown on the way (only a resolver of the caller can throw here).
\<close>

definition resolve_targetId ::
  "(string \<Rightarrow> js_error + jsval) \<Rightarrow> resolver option \<Rightarrow> request \<Rightarrow> response \<Rightarrow> jsval
     \<Rightarrow> js_error + jsval" where
  "resolve_targetId JSON_parse getTargetId req res body =
     (case getTargetId of
        Some g \<Rightarrow> map_sum id JStr (g req res)
      | None \<Rightarrow>
          (case param req ''id'' of
             Some v \<Rightarrow> Inr (JStr v)
           | None \<Rightarrow>
          (case param req ''stationId'' of
             Some v \<Rightarrow> Inr (JStr v)
           | None \<Rightarrow>
          (case param req ''userId'' of
             Some v \<Rightarrow> Inr (JStr v)
           | None \<Rightarrow>
          (case body of
             JStr s \<Rightarrow> if s \<noteq> [] then Inr (from_body JSON_parse s) else Inr (JStr ''unknown'')
           | _ \<Rightarrow> Inr (JStr ''unknown''))))))"

text \<open>
  The \<open>res.send\<close> that \<open>auditLog(action, targetType, getTargetId)\<close> installs. The result is
  the body handed to the original \<open>send\<close> and the new state. The call of
  \<open>createAuditLog\<close> is not awaited: it is added to \<open>pending\<close>.
\<close>

definition auditLog ::
  "(string \<Rightarrow> js_error + jsval) \<Rightarrow> string \<Rightarrow> string \<Rightarrow> resolver option
     \<Rightarrow> request \<Rightarrow> response \<Rightarrow> jsval \<Rightarrow> world \<Rightarrow> jsval \<times> world" where
  "auditLog JSON_parse action targetType getTargetId req res body w =
     (body,
      if 200 \<le> statusCode res \<and> statusCode res < 300 then
        (case user req of
           None \<Rightarrow> w
         | Some u \<Rightarrow>
             if userId u = [] then w
             else (case resolve_targetId JSON_parse getTargetId req res body of
                     Inl error \<Rightarrow> console_error ''Error in audit logging middleware:'' w
                   | Inr targetId \<Rightarrow>
                       w\<lparr>pending := pending w @
                           [\<lparr> call_userId = userId u, call_action = action,
                              call_targetType = targetType, call_targetId = targetId,
                              call_ipAddress = getClientIP req \<rparr>]\<rparr>))
      else w)"

text \<open>
  A pending call completes: \<open>createAuditLog(...).catch(...)\<close> of lines 106 to 109, run
  against the state of the store at that moment.
\<close>

definition settle :: "env \<Rightarrow> world \<Rightarrow> world" where
  "settle e w =
     (case pending w of
        [] \<Rightarrow> w
      | c # cs \<Rightarrow>
          (case createAuditLog e (call_userId c) (call_action c) (call_targetType c)
                  (call_targetId c) (call_ipAddress c) (w\<lparr>pending := cs\<rparr>) of
             (Inr _, w') \<Rightarrow> w'
           | (Inl error, w') \<Rightarrow> console_error ''Failed to create audit log:'' w'))"

text \<open>
  \<open>logAuditEvent(req, action, targetType, targetId)\<close> (auditLogger.ts). Its first
  parameter is declared a \<open>Request\<close>; the controllers pass \<open>(req as any).user?.userId\<close>,
  of type \<open>any\<close>, so at run time it receives a string or \<open>undefined\<close>. Reading \<open>.user\<close> of
  a string gives \<open>undefined\<close>; reading it of \<open>undefined\<close> throws, inside the \<open>try\<close>.
\<close>

datatype req_arg = ReqObject request | ReqString string | ReqUndefined

definition logAuditEvent ::
  "env \<Rightarrow> req_arg \<Rightarrow> string \<Rightarrow> string \<Rightarrow> string \<Rightarrow> world \<Rightarrow> (js_error + unit) \<times> world" where
  "logAuditEvent e req action targetType targetId w =
     (case req of
        ReqUndefined \<Rightarrow> (Inr (), console_error ''Error logging audit event:'' w)
      | ReqString s \<Rightarrow> (Inr (), w)
      | ReqObject r \<Rightarrow>
          (case user r of
             None \<Rightarrow> (Inr (), w)
           | Some u \<Rightarrow>
               if userId u = [] then (Inr (), w)
               else (case createAuditLog e (userId u) action targetType (JStr targetId)
                            (getClientIP r) w of
                       (Inr _, w') \<Rightarrow> (Inr (), w')
                     | (Inl error, w') \<Rightarrow> (Inr (), console_error ''Error logging audit event:'' w'))))"

text \<open>
  The wrapper ends with \<open>originalSend.call(this, body)\<close>, and the wrapper stays installed
  as \<open>res.send\<close>. The \<open>send\<close> of Express 4 (the dependencies list \<open>express ^4.21.2\<close>)
  hands a boolean, an array or an object that is neither \<open>null\<close> nor a Buffer to
  \<open>this.json\<close>, which serialises it and calls \<open>this.send\<close> with the text: the wrapper
  runs a second time, on the text. Every other body is written by that one call. \<open>res_send\<close> is the whole call of
  \<open>res.send(body)\<close> by a handler behind the adapter; \<open>JSON_stringify\<close> is the
  serialisation that \<open>res.json\<close> applies, a parameter. (A number passed to \<open>send\<close> is
  taken as a status code and does not come back to the wrapper.)
\<close>

fun through_json :: "jsval \<Rightarrow> bool" where
  "through_json (JBool _) = True"
| "through_json (JArr _) = True"
| "through_json (JObj _) = True"
| "through_json _ = False"

definition res_send ::
  "(jsval \<Rightarrow> string) \<Rightarrow> (string \<Rightarrow> js_error + jsval) \<Rightarrow> string \<Rightarrow> string \<Rightarrow> resolver option
     \<Rightarrow> request \<Rightarrow> response \<Rightarrow> jsval \<Rightarrow> world \<Rightarrow> jsval \<times> world" where
  "res_send JSON_stringify JSON_parse action targetType getTargetId req res body w =
     (case auditLog JSON_parse action targetType getTargetId req res body w of
        (sent, w1) \<Rightarrow>
          if through_json sent
          then auditLog JSON_parse action targetType getTargetId req res
                 (JStr (JSON_stringify sent)) w1
          else (sent, w1))"

section \<open>Request validation and responses\<close>

text \<open>
  The first error that a Joi schema reports (\<open>abortEarly\<close> is Joi's default), named by
  Joi's error code and the key it is about.
\<close>

datatype joi_detail =
    AnyRequired string
  | StringBase string
  | StringEmpty string
  | StringMin string nat
  | StringMax string nat
  | StringGuid string
  | NumberBase string
  | NumberInteger string
  | NumberMin string
  | NumberMax string
  | NumberUnsafe string
  | DateFormat string
  | ObjectUnknown string
  | ObjectBase

text \<open>\<open>Joi.string().min(lo).max(hi).required()\<close> on the value of key \<open>k\<close>.\<close>

fun joi_string_required :: "string \<Rightarrow> nat \<Rightarrow> nat option \<Rightarrow> jsval \<Rightarrow> joi_detail option" where
  "joi_string_required k lo hi JUndefined = Some (AnyRequired k)"
| "joi_string_required k lo hi (JStr s) =
     (if s = [] then Some (StringEmpty k)
      else if length s < lo then Some (StringMin k lo)
      else (case hi of
              None \<Rightarrow> None
            | Some h \<Rightarrow> if h < length s then Some (StringMax k h) else None))"
| "joi_string_required k lo hi _ = Some (StringBase k)"

definition own_prop :: "(string \<times> jsval) list \<Rightarrow> string \<Rightarrow> jsval" where
  "own_prop kvs k = (case map_of kvs k of None \<Rightarrow> JUndefined | Some v \<Rightarrow> v)"

text \<open>
  \<open>Joi.object({...}).validate(v)\<close>: \<open>undefined\<close> passes (the object itself is not
  required), any other value that is not an object fails; the keys of the schema are
  checked in order, then a key outside the schema is an error.
\<close>

definition joi_object :: "(string \<times> (jsval \<Rightarrow> joi_detail option)) list \<Rightarrow> jsval \<Rightarrow> joi_detail option" where
  "joi_object schema v =
     (case v of
        JUndefined \<Rightarrow> None
      | JObj kvs \<Rightarrow>
          (case List.map_filter (\<lambda>(k, check). check (own_prop kvs k)) schema of
             d # _ \<Rightarrow> Some d
           | [] \<Rightarrow>
               (case filter (\<lambda>k. k \<notin> set (map fst schema)) (map fst kvs) of
                  k # _ \<Rightarrow> Some (ObjectUnknown k)
                | [] \<Rightarrow> None))
      | _ \<Rightarrow> Some ObjectBase)"

definition str_of :: "jsval \<Rightarrow> string" where
  "str_of v = (case v of JStr s \<Rightarrow> s | _ \<Rightarrow> [])"

text \<open>What a handler sends: \<open>res.status(status).json({success, message, errors, data})\<close>.\<close>

record 'a http_response =
  status :: int
  success :: bool
  message :: string
  errors :: "joi_detail list"
  data :: "'a option"

definition validation_error :: "joi_detail \<Rightarrow> 'a http_response" where
  "validation_error d =
     \<lparr> status = 400, success = False, message = ''Validation error'', errors = [d], data = None \<rparr>"

definition failure :: "int \<Rightarrow> string \<Rightarrow> 'a http_response" where
  "failure code msg = \<lparr> status = code, success = False, message = msg, errors = [], data = None \<rparr>"

text \<open>The \<open>catch\<close> at the end of every handler: log, answer 500.\<close>

definition internal_error :: "string \<Rightarrow> world \<Rightarrow> 'a http_response \<times> world" where
  "internal_error msg w = (failure 500 ''Internal server error'', console_error msg w)"

section \<open>Two business operations that record explicitly\<close>

text \<open>
  \<open>changePassword\<close> (authController) calls \<open>createAuditLog\<close> itself. \<open>bcrypt.compare\<close>
  and \<open>bcrypt.hash\<close> are parameters. The destructuring of \<open>req.body\<close> throws when the
  body is \<open>undefined\<close> or \<open>null\<close>; every query fails when the database is down.
\<close>

definition changePasswordSchema :: "(string \<times> (jsval \<Rightarrow> joi_detail option)) list" where
  "changePasswordSchema =
     [(''currentPassword'', joi_string_required ''currentPassword'' 0 None),
      (''newPassword'', joi_string_required ''newPassword'' 6 None)]"

definition changePassword ::
  "(string \<Rightarrow> string \<Rightarrow> bool) \<Rightarrow> (string \<Rightarrow> string) \<Rightarrow> env \<Rightarrow> request \<Rightarrow> jsval \<Rightarrow> world
     \<Rightarrow> unit http_response \<times> world" where
  "changePassword bcrypt_compare bcrypt_hash e req body w =
     (if body = JUndefined \<or> body = JNull then internal_error ''Change password error:'' w
      else
        (case (case user req of None \<Rightarrow> None | Some u \<Rightarrow> if userId u = [] then None else Some (userId u)) of
           None \<Rightarrow> (failure 401 ''Unauthorized'', w)
         | Some uid \<Rightarrow>
             (case joi_object changePasswordSchema body of
                Some d \<Rightarrow> (validation_error d, w)
              | None \<Rightarrow>
                  if \<not> db_up w then internal_error ''Change password error:'' w
                  else
                    (case find (\<lambda>r. user_id r = uid) (users w) of
                       None \<Rightarrow> (failure 404 ''User not found'', w)
                     | Some usr \<Rightarrow>
                         (case body of
                            JObj kvs \<Rightarrow>
                              if \<not> bcrypt_compare (str_of (own_prop kvs ''currentPassword'')) (password usr)
                              then (failure 400 ''Current password is incorrect'', w)
                              else
                                (let hashedNewPassword = bcrypt_hash (str_of (own_prop kvs ''newPassword''));
                                     w1 = w\<lparr>users := map (\<lambda>r. if user_id r = uid
                                                                 then r\<lparr>password := hashedNewPassword\<rparr> else r)
                                                            (users w)\<rparr>
                                 in (case createAuditLog e uid ''PASSWORD_CHANGED'' ''User'' (JStr uid)
                                            (getClientIP req) w1 of
                                       (Inl error, w2) \<Rightarrow> internal_error ''Change password error:'' w2
                                     | (Inr _, w2) \<Rightarrow>
                                         (\<lparr> status = 200, success = True,
                                            message = ''Password changed successfully'',
                                            errors = [], data = None \<rparr>, w2)))
                          | _ \<Rightarrow> internal_error ''Change password error:'' w)))))"

text \<open>
  \<open>createStation\<close> (stationController) records through \<open>logAuditEvent\<close>, to which it
  passes \<open>(req as any).user?.userId\<close>. \<open>sid\<close> is the UUID generated for the station. The
  response carries the created station with its creator.
\<close>

definition createStationSchema :: "(string \<times> (jsval \<Rightarrow> joi_detail option)) list" where
  "createStationSchema =
     [(''stationName'', joi_string_required ''stationName'' 2 (Some 100)),
      (''serialNumber'', joi_string_required ''serialNumber'' 1 (Some 50)),
      (''location'', joi_string_required ''location'' 2 (Some 200))]"

definition createStation ::
  "env \<Rightarrow> string \<Rightarrow> request \<Rightarrow> jsval \<Rightarrow> world
     \<Rightarrow> (station_row \<times> user_row option) http_response \<times> world" where
  "createStation e sid req body w =
     (case joi_object createStationSchema body of
        Some d \<Rightarrow> (validation_error d, w)
      | None \<Rightarrow>
          (case body of
             JObj kvs \<Rightarrow>
               if \<not> db_up w then internal_error ''Create station error:'' w
               else if find (\<lambda>s. serialNumber s = str_of (own_prop kvs ''serialNumber'')) (stations w) \<noteq> None
               then (failure 400 ''Serial number already exists'', w)
               else
                 (let station = \<lparr> station_id = sid,
                                  stationName = str_of (own_prop kvs ''stationName''),
                                  serialNumber = str_of (own_prop kvs ''serialNumber''),
                                  location = str_of (own_prop kvs ''location''),
                                  createdBy = map_option userId (user req) \<rparr>;
                      w1 = w\<lparr>stations := stations w @ [station]\<rparr>;
                      creator = (case createdBy station of
                                   None \<Rightarrow> None
                                 | Some c \<Rightarrow> find (\<lambda>r. user_id r = c) (users w1))
                  in (case logAuditEvent e
                             (case user req of None \<Rightarrow> ReqUndefined | Some u \<Rightarrow> ReqString (userId u))
                             ''STATION_CREATED'' ''Station'' sid w1 of
                        (Inl error, w2) \<Rightarrow> internal_error ''Create station error:'' w2
                      | (Inr _, w2) \<Rightarrow>
                          (\<lparr> status = 201, success = True,
                             message = ''Station created successfully'',
                             errors = [], data = Some (station, creator) \<rparr>, w2)))
           | _ \<Rightarrow> internal_error ''Create station error:'' w))"

text \<open>
  The reminder routes (routes/backupReminders.ts) record through the adapter only:
  \<open>router.post('/', auditReminderCreated, createReminder)\<close>, with no resolver.
\<close>

definition auditReminderCreated ::
  "(string \<Rightarrow> js_error + jsval) \<Rightarrow> request \<Rightarrow> response \<Rightarrow> jsval \<Rightarrow> world \<Rightarrow> jsval \<times> world" where
  "auditReminderCreated JSON_parse = auditLog JSON_parse ''REMINDER_CREATED'' ''BackupReminder'' None"

section \<open>The query engine\<close>

text \<open>
  JavaScript numbers: the value of a finite double as a rational, the two infinities and
  \<open>NaN\<close>.
\<close>

datatype jsnum = Num rat | Infinity | NegInfinity | NaN

text \<open>
  \<open>Math.ceil(total / limit)\<close> for a count \<open>n\<close> and a number \<open>l\<close>. For a count below
  \<open>2 ^ 53\<close> and a positive integer \<open>l\<close> the rounded quotient of JavaScript has the
  ceiling of the exact quotient: the gap between the doubles around the quotient is
  smaller than \<open>2 / l\<close>, and a quotient that is not an integer lies at least \<open>1 / l\<close>
  above the integer below it.
\<close>

definition ceil_div :: "nat \<Rightarrow> rat \<Rightarrow> jsnum" where
  "ceil_div n l =
     (if l = 0 then (if n = 0 then NaN else Infinity)
      else Num (of_int \<lceil>of_nat n / l\<rceil>))"

text \<open>\<open>a < b\<close> on numbers: a comparison with \<open>NaN\<close> is false.\<close>

fun js_less :: "jsnum \<Rightarrow> jsnum \<Rightarrow> bool" where
  "js_less NaN b = False"
| "js_less a NaN = False"
| "js_less (Num a) (Num b) = (a < b)"
| "js_less a Infinity = (a \<noteq> Infinity)"
| "js_less NegInfinity b = (b \<noteq> NegInfinity)"
| "js_less a b = False"

text \<open>
  A value of the query string as Joi converts it: \<open>Unconvertible\<close> is a value that
  \<open>Joi.number()\<close>, \<open>Joi.string()\<close> or \<open>Joi.date().iso()\<close> refuses, \<open>Given x\<close> the converted
  value (a date as milliseconds since the epoch).
\<close>

datatype 'a field = Absent | Unconvertible | Given 'a

record list_query =
  q_page :: "rat field"
  q_limit :: "rat field"
  q_userId :: "string field"
  q_action :: "string field"
  q_targetType :: "string field"
  q_targetId :: "string field"
  q_startDate :: "int field"
  q_endDate :: "int field"
  q_search :: "string field"
  q_other :: "string list"

text \<open>The value that the schema returns for a valid query.\<close>

record list_value =
  page :: nat
  limit :: nat
  v_userId :: "string option"
  v_action :: "string option"
  v_targetType :: "string option"
  v_targetId :: "string option"
  startDate :: "int option"
  endDate :: "int option"
  search :: "string option"

text \<open>
  \<open>Joi.number().integer().min(lo).max(hi).default(dflt)\<close>. Joi refuses a number outside
  the safe integers of JavaScript before it applies the rules.
\<close>

definition joi_integer :: "string \<Rightarrow> nat \<Rightarrow> nat option \<Rightarrow> nat \<Rightarrow> rat field \<Rightarrow> joi_detail + nat" where
  "joi_integer k lo hi dflt f =
     (case f of
        Absent \<Rightarrow> Inr dflt
      | Unconvertible \<Rightarrow> Inl (NumberBase k)
      | Given r \<Rightarrow>
          if 2 ^ 53 - 1 < \<bar>r\<bar> then Inl (NumberUnsafe k)
          else if r \<noteq> of_int \<lfloor>r\<rfloor> then Inl (NumberInteger k)
          else if r < of_nat lo then Inl (NumberMin k)
          else (case hi of
                  None \<Rightarrow> Inr (nat \<lfloor>r\<rfloor>)
                | Some h \<Rightarrow> if of_nat h < r then Inl (NumberMax k) else Inr (nat \<lfloor>r\<rfloor>)))"

text \<open>\<open>Joi.string()\<close>, with \<open>.allow('')\<close> when \<open>allow_empty\<close>.\<close>

definition joi_text :: "string \<Rightarrow> bool \<Rightarrow> string field \<Rightarrow> joi_detail + string option" where
  "joi_text k allow_empty f =
     (case f of
        Absent \<Rightarrow> Inr None
      | Unconvertible \<Rightarrow> Inl (StringBase k)
      | Given s \<Rightarrow> if s = [] \<and> \<not> allow_empty then Inl (StringEmpty k) else Inr (Some s))"

text \<open>\<open>Joi.string().uuid()\<close>; which strings are UUIDs is Joi's matter, a parameter.\<close>

definition joi_uuid :: "(string \<Rightarrow> bool) \<Rightarrow> string \<Rightarrow> string field \<Rightarrow> joi_detail + string option" where
  "joi_uuid is_uuid k f =
     (case f of
        Absent \<Rightarrow> Inr None
      | Unconvertible \<Rightarrow> Inl (StringBase k)
      | Given s \<Rightarrow>
          if s = [] then Inl (StringEmpty k)
          else if \<not> is_uuid s then Inl (StringGuid k)
          else Inr (Some s))"

text \<open>\<open>Joi.date().iso()\<close>.\<close>

definition joi_date :: "string \<Rightarrow> int field \<Rightarrow> joi_detail + int option" where
  "joi_date k f =
     (case f of Absent \<Rightarrow> Inr None | Unconvertible \<Rightarrow> Inl (DateFormat k) | Given t \<Rightarrow> Inr (Some t))"

text \<open>
  \<open>getAuditLogsSchema.validate(req.query)\<close> (auditLogController, lines 118 to 128): the
  keys in the order of the schema, then the keys the schema does not know. No rule
  relates \<open>startDate\<close> to \<open>endDate\<close>.
\<close>

definition getAuditLogsSchema :: "(string \<Rightarrow> bool) \<Rightarrow> list_query \<Rightarrow> joi_detail + list_value" where
  "getAuditLogsSchema is_uuid q =
     bind_err (joi_integer ''page'' 1 None 1 (q_page q)) (\<lambda>p.
     bind_err (joi_integer ''limit'' 1 (Some 100) 10 (q_limit q)) (\<lambda>l.
     bind_err (joi_uuid is_uuid ''userId'' (q_userId q)) (\<lambda>u.
     bind_err (joi_text ''action'' False (q_action q)) (\<lambda>a.
     bind_err (joi_text ''targetType'' False (q_targetType q)) (\<lambda>tt.
     bind_err (joi_uuid is_uuid ''targetId'' (q_targetId q)) (\<lambda>ti.
     bind_err (joi_date ''startDate'' (q_startDate q)) (\<lambda>sd.
     bind_err (joi_date ''endDate'' (q_endDate q)) (\<lambda>ed.
     bind_err (joi_text ''search'' True (q_search q)) (\<lambda>se.
     (case q_other q of
        k # _ \<Rightarrow> Inl (ObjectUnknown k)
      | [] \<Rightarrow> Inr \<lparr> page = p, limit = l, v_userId = u, v_action = a, v_targetType = tt,
                   v_targetId = ti, startDate = sd, endDate = ed, search = se \<rparr>))))))))))"

text \<open>
  What the read path takes from its libraries: the UUID test, the number conversion and
  the ISO date conversion of Joi; \<open>Number(...)\<close> of JavaScript; the double that the
  arithmetic of JavaScript returns for an exact result (the nearest double, an infinity
  on overflow); the instant a number of days before another one, as \<open>setDate\<close> computes
  it (\<open>None\<close> is an invalid date); and the calendar date of an instant, as the \<open>DATE\<close>
  function of SQL computes it.
\<close>

record lib =
  is_uuid :: "string \<Rightarrow> bool"
  joi_number :: "string \<Rightarrow> rat option"
  joi_iso_date :: "string \<Rightarrow> int option"
  js_Number :: "string \<Rightarrow> jsnum"
  round_double :: "rat \<Rightarrow> jsnum"
  days_before :: "int \<Rightarrow> rat \<Rightarrow> int option"
  sql_date :: "int \<Rightarrow> int"

text \<open>
  \<open>req.query\<close>: the keys of the query string with their values, which are strings (a
  repeated key, which Express delivers as an array, is left out). \<open>joi_view\<close> is the
  query as the conversions of Joi see it.
\<close>

type_synonym query = "(string \<times> string) list"

definition converted :: "(string \<Rightarrow> 'a option) \<Rightarrow> string option \<Rightarrow> 'a field" where
  "converted conv x =
     (case x of
        None \<Rightarrow> Absent
      | Some s \<Rightarrow> (case conv s of None \<Rightarrow> Unconvertible | Some v \<Rightarrow> Given v))"

definition schema_keys :: "string list" where
  "schema_keys = [''page'', ''limit'', ''userId'', ''action'', ''targetType'', ''targetId'',
                  ''startDate'', ''endDate'', ''search'']"

definition joi_view :: "lib \<Rightarrow> query \<Rightarrow> list_query" where
  "joi_view L q =
     \<lparr> q_page = converted (joi_number L) (map_of q ''page''),
       q_limit = converted (joi_number L) (map_of q ''limit''),
       q_userId = converted Some (map_of q ''userId''),
       q_action = converted Some (map_of q ''action''),
       q_targetType = converted Some (map_of q ''targetType''),
       q_targetId = converted Some (map_of q ''targetId''),
       q_startDate = converted (joi_iso_date L) (map_of q ''startDate''),
       q_endDate = converted (joi_iso_date L) (map_of q ''endDate''),
       q_search = converted Some (map_of q ''search''),
       q_other = filter (\<lambda>k. k \<notin> set schema_keys) (map fst q) \<rparr>"

text \<open>The user joined to an event (\<open>include: [{ model: User, as: 'user' }]\<close>).\<close>

definition user_of :: "world \<Rightarrow> auditlog \<Rightarrow> user_row option" where
  "user_of w r = find (\<lambda>u. user_id u = log_userId r) (users w)"

text \<open>
  The where clause that a handler builds, as the list of its conditions. \<open>if_given x f\<close> is
  \<open>if (x) { whereClause... = f x }\<close>. The patterns of the two \<open>Op.iLike\<close> conditions are
  \<open>%\<close>, the text, \<open>%\<close>; the search condition is the \<open>Op.or\<close> over \<open>action\<close>, \<open>targetType\<close>
  and the three names of the joined user.
\<close>

datatype condition =
    UserIdIs string
  | ActionILike string
  | TargetTypeIs string
  | TargetIdIs string
  | TimestampFrom int
  | TimestampTo int
  | SearchILike string

definition if_given :: "string option \<Rightarrow> (string \<Rightarrow> condition) \<Rightarrow> condition list" where
  "if_given x f = (case x of None \<Rightarrow> [] | Some s \<Rightarrow> if s = [] then [] else [f s])"

text \<open>The where clause of \<open>getAuditLogs\<close> (lines 170 to 211).\<close>

definition whereClause :: "list_value \<Rightarrow> condition list" where
  "whereClause v =
     if_given (v_userId v) UserIdIs
     @ if_given (v_action v) (\<lambda>a. ActionILike (''%'' @ a @ ''%''))
     @ if_given (v_targetType v) TargetTypeIs
     @ if_given (v_targetId v) TargetIdIs
     @ (case startDate v of None \<Rightarrow> [] | Some s \<Rightarrow> [TimestampFrom s])
     @ (case endDate v of None \<Rightarrow> [] | Some e \<Rightarrow> [TimestampTo e])
     @ if_given (search v) (\<lambda>s. SearchILike (''%'' @ s @ ''%''))"

text \<open>
  What the database makes of a condition. The configured dialect is \<open>mysql\<close>
  (config/config.ts, all three environments). Sequelize prints \<open>Op.iLike\<close> as \<open>ILIKE\<close>,
  an operator that MySQL does not have: a condition with it cannot be evaluated, and
  the query that holds one fails.
\<close>

fun evaluable :: "condition \<Rightarrow> (auditlog \<Rightarrow> bool) option" where
  "evaluable (UserIdIs u) = Some (\<lambda>r. log_userId r = u)"
| "evaluable (TargetTypeIs t) = Some (\<lambda>r. log_targetType r = t)"
| "evaluable (TargetIdIs t) = Some (\<lambda>r. log_targetId r = JStr t)"
| "evaluable (TimestampFrom s) = Some (\<lambda>r. s \<le> log_timestamp r)"
| "evaluable (TimestampTo e) = Some (\<lambda>r. log_timestamp r \<le> e)"
| "evaluable (ActionILike p) = None"
| "evaluable (SearchILike p) = None"

text \<open>
  \<open>AuditLog.findAndCountAll\<close> with \<open>where\<close>, \<open>limit\<close>, \<open>offset\<close> and the order \<open>timestamp DESC\<close>:
  the query fails when a condition cannot be evaluated; otherwise it yields the rows
  that satisfy every condition, newest first (rows of equal timestamp in insertion
  order), cut to the window, and the number of all rows that satisfy the conditions.
\<close>

definition findAndCountAll ::
  "condition list \<Rightarrow> nat \<Rightarrow> nat \<Rightarrow> world \<Rightarrow> js_error + auditlog list \<times> nat" where
  "findAndCountAll conds lmt offset w =
     (case those (map evaluable conds) of
        None \<Rightarrow> Inl DatabaseError
      | Some ps \<Rightarrow>
          (let selected = filter (\<lambda>r. list_all (\<lambda>p. p r) ps) (audit_logs w)
           in Inr (take lmt (drop offset (sort_key (\<lambda>r. - log_timestamp r) selected)),
                   length selected)))"

record pagination =
  currentPage :: jsnum
  totalPages :: jsnum
  totalItems :: nat
  itemsPerPage :: jsnum
  hasNextPage :: bool
  hasPreviousPage :: bool

record list_data =
  auditLogs :: "(auditlog \<times> user_row option) list"
  userInfo :: "user_row option"
  paging :: pagination

definition ok :: "'a \<Rightarrow> 'a http_response" where
  "ok d = \<lparr> status = 200, success = True, message = [], errors = [], data = Some d \<rparr>"

text \<open>
  \<open>getAuditLogs\<close> (auditLogController, lines 153 to 256). \<open>list_page\<close> is what the
  handler computes from the validated value (lines 166 to 246), or the error of the
  query. The page is at most \<open>2 ^ 53 - 1\<close> and the limit at most 100, so the offset is a
  natural number that the \<open>LIMIT\<close> clause accepts.
\<close>

definition list_page :: "list_value \<Rightarrow> world \<Rightarrow> js_error + list_data" where
  "list_page v w =
     (let offset = (page v - 1) * limit v
      in case findAndCountAll (whereClause v) (limit v) offset w of
           Inl error \<Rightarrow> Inl error
         | Inr (rows, n) \<Rightarrow>
             (let pages = ceil_div n (of_nat (limit v))
              in Inr \<lparr> auditLogs = map (\<lambda>r. (r, user_of w r)) rows,
                       userInfo = None,
                       paging = \<lparr> currentPage = Num (of_nat (page v)),
                                   totalPages = pages,
                                   totalItems = n,
                                   itemsPerPage = Num (of_nat (limit v)),
                                   hasNextPage = js_less (Num (of_nat (page v))) pages,
                                   hasPreviousPage = (1 < page v) \<rparr> \<rparr>))"

definition getAuditLogs :: "lib \<Rightarrow> query \<Rightarrow> world \<Rightarrow> list_data http_response \<times> world" where
  "getAuditLogs L q w =
     (case getAuditLogsSchema (is_uuid L) (joi_view L q) of
        Inl d \<Rightarrow> (validation_error d, w)
      | Inr v \<Rightarrow>
          if \<not> db_up w then internal_error ''Get audit logs error:'' w
          else (case list_page v w of
                  Inl error \<Rightarrow> internal_error ''Get audit logs error:'' w
                | Inr d \<Rightarrow> (ok d, w)))"

text \<open>\<open>getAuditLogById\<close> (lines 258 to 304).\<close>

definition getAuditLogById :: "request \<Rightarrow> world \<Rightarrow> (auditlog \<times> user_row option) http_response \<times> world" where
  "getAuditLogById req w =
     (case param req ''id'' of
        None \<Rightarrow> (failure 400 ''Audit log ID is required'', w)
      | Some i \<Rightarrow>
          if \<not> db_up w then internal_error ''Get audit log by ID error:'' w
          else (case find (\<lambda>r. log_id r = i) (audit_logs w) of
                  None \<Rightarrow> (failure 404 ''Audit log not found'', w)
                | Some r \<Rightarrow> (ok (r, user_of w r), w)))"

text \<open>
  \<open>getAuditLogsByUser\<close> (lines 306 to 388). It reads \<open>page\<close>, \<open>limit\<close>, \<open>action\<close> and
  \<open>targetType\<close> from the query, converts the first two with \<open>Number\<close> and validates
  nothing. The offset is \<open>(Number(page) - 1) * Number(limit)\<close> in the arithmetic of
  doubles. The \<open>LIMIT\<close> clause of MySQL takes unsigned integers below \<open>2 ^ 64\<close>, and
  JavaScript prints such a number in plain digits; any other limit or offset (a
  fraction, a negative number, a larger number, an infinity, \<open>NaN\<close>) makes the query
  fail, and the handler answers 500.
\<close>

definition number_or :: "lib \<Rightarrow> rat \<Rightarrow> string option \<Rightarrow> jsnum" where
  "number_or L dflt x = (case x of None \<Rightarrow> Num dflt | Some s \<Rightarrow> js_Number L s)"

definition is_count :: "rat \<Rightarrow> bool" where
  "is_count r = (0 \<le> r \<and> r = of_int \<lfloor>r\<rfloor>)"

definition sql_count :: "rat \<Rightarrow> bool" where
  "sql_count r = (is_count r \<and> r < 2 ^ 64)"

text \<open>The limit and the offset of the query, when the \<open>LIMIT\<close> clause accepts them.\<close>

definition limit_clause :: "lib \<Rightarrow> jsnum \<Rightarrow> jsnum \<Rightarrow> (nat \<times> nat) option" where
  "limit_clause L p l =
     (case (p, l) of
        (Num a, Num b) \<Rightarrow>
          (case round_double L (a - 1) of
             Num c \<Rightarrow>
               (case round_double L (c * b) of
                  Num offset \<Rightarrow>
                    if sql_count offset \<and> sql_count b
                    then Some (nat \<lfloor>b\<rfloor>, nat \<lfloor>offset\<rfloor>)
                    else None
                | _ \<Rightarrow> None)
           | _ \<Rightarrow> None)
      | _ \<Rightarrow> None)"

definition userWhere :: "string \<Rightarrow> query \<Rightarrow> condition list" where
  "userWhere uid q =
     [UserIdIs uid]
     @ if_given (map_of q ''action'') (\<lambda>a. ActionILike (''%'' @ a @ ''%''))
     @ if_given (map_of q ''targetType'') TargetTypeIs"

definition getAuditLogsByUser ::
  "lib \<Rightarrow> request \<Rightarrow> query \<Rightarrow> world \<Rightarrow> list_data http_response \<times> world" where
  "getAuditLogsByUser L req q w =
     (case param req ''userId'' of
        None \<Rightarrow> (failure 400 ''User ID is required'', w)
      | Some uid \<Rightarrow>
          if \<not> db_up w then internal_error ''Get audit logs by user error:'' w
          else
            (case find (\<lambda>u. user_id u = uid) (users w) of
               None \<Rightarrow> (failure 404 ''User not found'', w)
             | Some usr \<Rightarrow>
                 (let p = number_or L 1 (map_of q ''page'');
                      l = number_or L 10 (map_of q ''limit'')
                  in case limit_clause L p l of
                       None \<Rightarrow> internal_error ''Get audit logs by user error:'' w
                     | Some (lmt, offset) \<Rightarrow>
                         (case findAndCountAll (userWhere uid q) lmt offset w of
                            Inl error \<Rightarrow> internal_error ''Get audit logs by user error:'' w
                          | Inr (rows, n) \<Rightarrow>
                              (let pages = ceil_div n (of_nat lmt)
                               in (ok \<lparr> auditLogs = map (\<lambda>r. (r, user_of w r)) rows,
                                         userInfo = Some usr,
                                         paging = \<lparr> currentPage = p,
                                                     totalPages = pages,
                                                     totalItems = n,
                                                     itemsPerPage = l,
                                                     hasNextPage = js_less p pages,
                                                     hasPreviousPage = js_less (Num 1) p \<rparr> \<rparr>,
                                   w))))))"

text \<open>
  \<open>getAuditLogStatistics\<close> (lines 390 to 497). Its where clauses hold no \<open>Op.iLike\<close>. A
  grouped count lists each key once with the number of its rows; \<open>ORDER BY COUNT DESC
  LIMIT 10\<close> keeps the ten largest.
\<close>

definition group_count :: "('a \<Rightarrow> 'k) \<Rightarrow> 'a list \<Rightarrow> ('k \<times> nat) list" where
  "group_count key rows =
     map (\<lambda>k. (k, length (filter (\<lambda>r. key r = k) rows))) (remdups (map key rows))"

definition top10 :: "('k \<times> nat) list \<Rightarrow> ('k \<times> nat) list" where
  "top10 xs = take 10 (sort_key (\<lambda>kc. - int (snd kc)) xs)"

record stats_data =
  totalLogs :: nat
  recentLogs :: nat
  actionStats :: "(string \<times> nat) list"
  targetTypeStats :: "(string \<times> nat) list"
  userActivityStats :: "((string \<times> user_row option) \<times> nat) list"
  dailyStats :: "(int \<times> nat) list"

definition when_given :: "string option \<Rightarrow> (string \<Rightarrow> bool) \<Rightarrow> bool" where
  "when_given x cond = (case x of None \<Rightarrow> True | Some s \<Rightarrow> if s = [] then True else cond s)"

definition statsWhere :: "query \<Rightarrow> auditlog \<Rightarrow> bool" where
  "statsWhere q r =
     (when_given (map_of q ''userId'') (\<lambda>u. log_userId r = u)
      \<and> when_given (map_of q ''targetType'') (\<lambda>t. log_targetType r = t))"

definition getAuditLogStatistics ::
  "lib \<Rightarrow> env \<Rightarrow> query \<Rightarrow> world \<Rightarrow> stats_data http_response \<times> world" where
  "getAuditLogStatistics L e q w =
     (case (case number_or L 30 (map_of q ''days'') of
              Num d \<Rightarrow> days_before L (now e) d
            | _ \<Rightarrow> None,
            days_before L (now e) 7) of
        (Some daysAgo, Some sevenDaysAgo) \<Rightarrow>
          if \<not> db_up w then internal_error ''Get audit log statistics error:'' w
          else
            (let base = filter (statsWhere q) (audit_logs w);
                 recent = filter (\<lambda>r. daysAgo \<le> log_timestamp r) base;
                 week = filter (\<lambda>r. sevenDaysAgo \<le> log_timestamp r) base
             in (ok \<lparr> totalLogs = length base,
                       recentLogs = length recent,
                       actionStats = top10 (group_count log_action recent),
                       targetTypeStats = top10 (group_count log_targetType recent),
                       userActivityStats = top10 (group_count (\<lambda>r. (log_userId r, user_of w r)) recent),
                       dailyStats = rev (sort_key fst (group_count (\<lambda>r. sql_date L (log_timestamp r)) week)) \<rparr>,
                 w))
      | _ \<Rightarrow> internal_error ''Get audit log statistics error:'' w)"

text \<open>
  The router of the audit logs (routes/auditLogs.ts), for a request that the
  authentication and the authorisation middleware have let through: four \<open>GET\<close> routes
  (which Express also runs for \<open>HEAD\<close>), tried in the order of the file, on the segments
  of the path below \<open>/api/audit-logs\<close>.
  The router of Express compares the fixed segments without regard to the case of the
  letters; a parameter keeps the segment as it was sent. Any other request falls
  through to the 404 handler of app.ts. (\<open>OPTIONS\<close>, which the \<open>cors\<close> middleware of app.ts
  answers before the routers, is not among the methods.) The result is the status of the response and
  the new state.
\<close>

datatype http_method = GET | HEAD | POST | PUT | PATCH | DELETE

definition lower :: "string \<Rightarrow> string" where
  "lower s =
     map (\<lambda>c. case map_of (zip ''ABCDEFGHIJKLMNOPQRSTUVWXYZ'' ''abcdefghijklmnopqrstuvwxyz'') c of
                 None \<Rightarrow> c
               | Some d \<Rightarrow> d) s"

definition auditLogRoutes ::
  "lib \<Rightarrow> env \<Rightarrow> http_method \<Rightarrow> string list \<Rightarrow> request \<Rightarrow> query \<Rightarrow> world \<Rightarrow> int \<times> world" where
  "auditLogRoutes L e m path req q w =
     (if m \<noteq> GET \<and> m \<noteq> HEAD then (404, w)
      else
        (case path of
           [] \<Rightarrow> (case getAuditLogs L q w of (r, w') \<Rightarrow> (status r, w'))
         | [s] \<Rightarrow>
             if lower s = ''statistics''
             then (case getAuditLogStatistics L e q w of (r, w') \<Rightarrow> (status r, w'))
             else (case getAuditLogById (req\<lparr>params := [''id'' \<mapsto> s]\<rparr>) w of
                     (r, w') \<Rightarrow> (status r, w'))
         | [a, b] \<Rightarrow>
             if lower a = ''user''
             then (case getAuditLogsByUser L (req\<lparr>params := [''userId'' \<mapsto> b]\<rparr>) q w of
                     (r, w') \<Rightarrow> (status r, w'))
             else (404, w)
         | _ \<Rightarrow> (404, w)))"

section \<open>The payload walk as the specification words it\<close>

text \<open>
  The specification describes the third level of target resolution as a walk over a
  fixed, ordered list of nested locations of the parsed payload that returns the first
  present value. \<open>at_path\<close> reads a nested location (\<open>undefined\<close> when a step is
  missing or is not an object); a value counts as present when it is truthy, which is
  the test of the code.
\<close>

definition lookup :: "jsval \<Rightarrow> string \<Rightarrow> jsval" where
  "lookup v k = (case v of JObj kvs \<Rightarrow> own_prop kvs k | _ \<Rightarrow> JUndefined)"

definition at_path :: "jsval \<Rightarrow> string list \<Rightarrow> jsval" where
  "at_path v ks = foldl lookup v ks"

definition payload_paths :: "string list list" where
  "payload_paths =
     [''data'', ''id''] # [''data'', ''user'', ''id''] # [''data'', ''station'', ''id''] #
     [''data'', ''profile'', ''id''] # [''data'', ''backup'', ''id''] #
     [''data'', ''reminder'', ''id''] # [''data'', ''role'', ''id''] # []"

definition first_present :: "jsval \<Rightarrow> jsval option" where
  "first_present parsedBody = find truthy (map (at_path parsedBody) payload_paths)"

section \<open>Notions used in the statements\<close>

text \<open>
  An actor is present when \<open>req.user\<close> is set and its \<open>userId\<close> is not empty: the test
  \<open>user && user.userId\<close>. A resolver throws on a request when it is given and its call
  ends in an error.
\<close>

definition actor_present :: "request \<Rightarrow> bool" where
  "actor_present req = (case user req of None \<Rightarrow> False | Some u \<Rightarrow> userId u \<noteq> [])"

definition resolver_throws :: "resolver option \<Rightarrow> request \<Rightarrow> response \<Rightarrow> bool" where
  "resolver_throws g req res = (case g of None \<Rightarrow> False | Some f \<Rightarrow> (case f req res of Inl _ \<Rightarrow> True | Inr _ \<Rightarrow> False))"

definition is_string :: "jsval \<Rightarrow> bool" where
  "is_string v = (case v of JStr _ \<Rightarrow> True | _ \<Rightarrow> False)"

text \<open>A filter value that the handler skips: \<open>if (x)\<close> is false.\<close>

definition absent :: "string option \<Rightarrow> bool" where
  "absent x = (case x of None \<Rightarrow> True | Some s \<Rightarrow> s = [])"

section \<open>Concrete requests and states\<close>

text \<open>
  The inputs of the worked instances: an authenticated administrator, requests with and
  without path parameters, a response body of the reminder controller with the value
  that \<open>JSON.parse\<close> gives for it, a resolver that throws, a store that accepts every
  insert and one that rejects every insert, and a small Event Store.
\<close>

definition admin :: actor where
  "admin = \<lparr> userId = ''u-1'' \<rparr>"

definition req_plain :: request where
  "req_plain = \<lparr> params = Map.empty, user = Some admin, x_forwarded_for = None,
                 connection_remoteAddress = Some ''10.0.0.7'', socket_remoteAddress = None \<rparr>"

definition req_with_id :: request where
  "req_with_id = req_plain\<lparr>params := [''id'' \<mapsto> ''p-1'']\<rparr>"

definition req_with_stationId :: request where
  "req_with_stationId = req_plain\<lparr>params := [''stationId'' \<mapsto> ''s-9'', ''userId'' \<mapsto> ''u-9'']\<rparr>"

definition req_with_userId :: request where
  "req_with_userId = req_plain\<lparr>params := [''userId'' \<mapsto> ''u-9'']\<rparr>"

definition req_anonymous :: request where
  "req_anonymous = req_plain\<lparr>user := None\<rparr>"

definition ok_response :: response where
  "ok_response = \<lparr> statusCode = 200 \<rparr>"

definition created_response :: response where
  "created_response = \<lparr> statusCode = 201 \<rparr>"

definition reminder_payload :: jsval where
  "reminder_payload = JObj [(''success'', JBool True),
                            (''data'', JObj [(''reminder'', JObj [(''id'', JStr ''r-1'')])])]"

definition reminder_text :: string where
  \<open>reminder_text = ''{"success":true,"data":{"reminder":{"id":"r-1"}}}''\<close>

definition broken_text :: string where
  \<open>broken_text = ''{"success":tr''\<close>

definition json_table :: "string \<Rightarrow> js_error + jsval" where
  "json_table s = (if s = reminder_text then Inr reminder_payload else Inl SyntaxError)"

definition stringify_table :: "jsval \<Rightarrow> string" where
  "stringify_table v = (if v = reminder_payload then reminder_text else ''null'')"

definition throwing_resolver :: resolver where
  "throwing_resolver req res = Inl (Thrown ''no target'')"

definition fixed_resolver :: resolver where
  "fixed_resolver req res = Inr ''t-7''"

definition store_down :: "auditlog \<Rightarrow> bool" where
  "store_down r = True"

definition store_up :: "auditlog \<Rightarrow> bool" where
  "store_up r = False"

definition eric :: user_row where
  "eric = \<lparr> user_id = ''u-1'', firstName = ''Eric'', lastName = ''mushi'', username = ''eric.mushi'',
             password = ''123456'', user_status = ''active'', roleId = ''role-1'' \<rparr>"

definition world0 :: world where
  "world0 = \<lparr> audit_logs = [], rejects = store_up, users = [eric], stations = [], db_up = True,
               console = [], pending = [] \<rparr>"

definition env0 :: env where
  "env0 = \<lparr> now = 1752650000000, uuid = ''a-1'' \<rparr>"

definition plain_compare :: "string \<Rightarrow> string \<Rightarrow> bool" where
  "plain_compare given stored = (given = stored)"

definition plain_hash :: "string \<Rightarrow> string" where
  "plain_hash s = s"

definition password_body :: jsval where
  "password_body = JObj [(''currentPassword'', JStr ''123456''), (''newPassword'', JStr ''abcdefg'')]"

definition station_body :: jsval where
  "station_body = JObj [(''stationName'', JStr ''North''), (''serialNumber'', JStr ''SN-1''),
                        (''location'', JStr ''Arusha'')]"

text \<open>
  A library for the concrete queries below: the conversions on the strings that occur in
  them, the one UUID that occurs, the arithmetic on the natural numbers below \<open>2 ^ 53\<close>
  (where it is exact), days of 24 hours.
\<close>

definition demo_number :: "string \<Rightarrow> rat option" where
  "demo_number s =
     (if s = ''1'' then Some 1 else if s = ''2'' then Some 2 else if s = ''150'' then Some 150
      else None)"

definition demo_Number :: "string \<Rightarrow> jsnum" where
  "demo_Number s = (case demo_number s of None \<Rightarrow> NaN | Some r \<Rightarrow> Num r)"

definition demo_round :: "rat \<Rightarrow> jsnum" where
  "demo_round r = (if is_count r \<and> r < 2 ^ 53 then Num r else NaN)"

definition demo_date :: "string \<Rightarrow> int option" where
  "demo_date s =
     (if s = ''2025-07-01T00:00:00Z'' then Some 1751328000000
      else if s = ''2025-07-31T00:00:00Z'' then Some 1753920000000
      else None)"

definition demo_uuid :: "string \<Rightarrow> bool" where
  "demo_uuid s = (s = ''6f1c2d3e-4b5a-4c7d-8e9f-0a1b2c3d4e5f'')"

definition demo_days_before :: "int \<Rightarrow> rat \<Rightarrow> int option" where
  "demo_days_before t d = Some (t - \<lfloor>d\<rfloor> * 86400000)"

definition demo_sql_date :: "int \<Rightarrow> int" where
  "demo_sql_date t = t div 86400000"

definition demo_lib :: lib where
  "demo_lib = \<lparr> is_uuid = demo_uuid, joi_number = demo_number, joi_iso_date = demo_date,
                 js_Number = demo_Number, round_double = demo_round,
                 days_before = demo_days_before, sql_date = demo_sql_date \<rparr>"

definition login_event :: auditlog where
  "login_event = \<lparr> log_id = ''a-1'', log_userId = ''u-1'', log_action = ''USER_LOGIN'',
                    log_targetType = ''User'', log_targetId = JStr ''u-1'',
                    log_timestamp = 1752000000000, log_ipAddress = ''10.0.0.7'' \<rparr>"

definition password_event :: auditlog where
  "password_event = \<lparr> log_id = ''a-2'', log_userId = ''u-1'', log_action = ''PASSWORD_CHANGED'',
                       log_targetType = ''User'', log_targetId = JStr ''u-1'',
                       log_timestamp = 1752100000000, log_ipAddress = ''10.0.0.7'' \<rparr>"

definition reminder_event :: auditlog where
  "reminder_event = \<lparr> log_id = ''a-3'', log_userId = ''u-1'', log_action = ''REMINDER_CREATED'',
                       log_targetType = ''BackupReminder'', log_targetId = JStr ''r-1'',
                       log_timestamp = 1752200000000, log_ipAddress = ''10.0.0.7'' \<rparr>"

definition world1 :: world where
  "world1 = world0\<lparr>audit_logs := [login_event, password_event, reminder_event]\<rparr>"



definition two_per_page :: query where
  "two_per_page = [(''limit'', ''2'')]"






definition with_action :: query where
  "with_action = [(''action'', ''LOGIN'')]"

definition with_action_value :: list_value where
  "with_action_value = \<lparr> page = 1, limit = 10, v_userId = None, v_action = Some ''LOGIN'',
       v_targetType = None, v_targetId = None, startDate = None, endDate = None, search = None \<rparr>"

definition req_user_u1 :: request where
  "req_user_u1 = req_plain\<lparr>params := [''userId'' \<mapsto> ''u-1'']\<rparr>"

definition req_user_missing :: request where
  "req_user_missing = req_plain\<lparr>params := [''userId'' \<mapsto> ''u-404'']\<rparr>"

definition req_event_a2 :: request where
  "req_event_a2 = req_plain\<lparr>params := [''id'' \<mapsto> ''a-2'']\<rparr>"





text \<open>The call that the adapter starts for actor \<open>u\<close> with target id \<open>v\<close>.\<close>

definition call_of :: "request \<Rightarrow> actor \<Rightarrow> string \<Rightarrow> string \<Rightarrow> jsval \<Rightarrow> audit_call" where
  "call_of req u a t v = \<lparr> call_userId = userId u, call_action = a, call_targetType = t,
        call_targetId = v, call_ipAddress = getClientIP req \<rparr>"

section \<open>Properties\<close>

subsection \<open>Auxiliary facts\<close>

lemma createAuditLog_returns: "fst (createAuditLog e uid a t tid ip w) = Inr ()"
  by (simp add: createAuditLog_def AuditLog_create_def Let_def)

lemma data_id_path:
  assumes "pb \<noteq> JNull" "pb \<noteq> JUndefined"
  shows "\<exists>x. data_id pb = Inr x \<and> (truthy x \<longleftrightarrow> truthy (at_path pb [''data'', ''id'']))
            \<and> (truthy x \<longrightarrow> x = at_path pb [''data'', ''id''])"
proof (cases pb)
  case (JObj kvs)
  show ?thesis
  proof (cases "own_prop kvs ''data''")
    case (JObj d)
    then show ?thesis using \<open>pb = JObj kvs\<close>
      by (simp add: data_id_def bind_err_def at_path_def lookup_def own_prop_def)
  qed (use \<open>pb = JObj kvs\<close> in \<open>simp_all add: data_id_def bind_err_def at_path_def lookup_def own_prop_def\<close>)
qed (use assms in \<open>simp_all add: data_id_def bind_err_def at_path_def lookup_def\<close>)

lemma data_sub_id_path:
  assumes "pb \<noteq> JNull" "pb \<noteq> JUndefined"
  shows "\<exists>x. data_sub_id k pb = Inr x \<and> (truthy x \<longleftrightarrow> truthy (at_path pb [''data'', k, ''id'']))
            \<and> (truthy x \<longrightarrow> x = at_path pb [''data'', k, ''id''])"
proof (cases pb)
  case (JObj kvs)
  note pb = this
  show ?thesis
  proof (cases "own_prop kvs ''data''")
    case (JObj d)
    note d = this
    show ?thesis
      by (cases "own_prop d k")
         (use pb d in \<open>simp_all add: data_sub_id_def bind_err_def at_path_def lookup_def own_prop_def\<close>)
  qed (use pb in \<open>simp_all add: data_sub_id_def bind_err_def at_path_def lookup_def own_prop_def\<close>)
qed (use assms in \<open>simp_all add: data_sub_id_def bind_err_def at_path_def lookup_def\<close>)

lemma payload_walk_first_present:
  assumes "pb \<noteq> JNull" "pb \<noteq> JUndefined"
  shows "payload_walk pb = Inr (first_present pb)"
proof -
  obtain x0 where x0: "data_id pb = Inr x0"
      "truthy x0 \<longleftrightarrow> truthy (at_path pb [''data'', ''id''])"
      "truthy x0 \<longrightarrow> x0 = at_path pb [''data'', ''id'']"
    using data_id_path [OF assms] by blast
  have sub: "\<And>k. \<exists>x. data_sub_id k pb = Inr x \<and> (truthy x \<longleftrightarrow> truthy (at_path pb [''data'', k, ''id'']))
            \<and> (truthy x \<longrightarrow> x = at_path pb [''data'', k, ''id''])"
    using data_sub_id_path [OF assms] by blast
  obtain x1 where x1: "data_sub_id ''user'' pb = Inr x1"
      "truthy x1 \<longleftrightarrow> truthy (at_path pb [''data'', ''user'', ''id''])"
      "truthy x1 \<longrightarrow> x1 = at_path pb [''data'', ''user'', ''id'']"
    using sub [of "''user''"] by blast
  obtain x2 where x2: "data_sub_id ''station'' pb = Inr x2"
      "truthy x2 \<longleftrightarrow> truthy (at_path pb [''data'', ''station'', ''id''])"
      "truthy x2 \<longrightarrow> x2 = at_path pb [''data'', ''station'', ''id'']"
    using sub [of "''station''"] by blast
  obtain x3 where x3: "data_sub_id ''profile'' pb = Inr x3"
      "truthy x3 \<longleftrightarrow> truthy (at_path pb [''data'', ''profile'', ''id''])"
      "truthy x3 \<longrightarrow> x3 = at_path pb [''data'', ''profile'', ''id'']"
    using sub [of "''profile''"] by blast
  obtain x4 where x4: "data_sub_id ''backup'' pb = Inr x4"
      "truthy x4 \<longleftrightarrow> truthy (at_path pb [''data'', ''backup'', ''id''])"
      "truthy x4 \<longrightarrow> x4 = at_path pb [''data'', ''backup'', ''id'']"
    using sub [of "''backup''"] by blast
  obtain x5 where x5: "data_sub_id ''reminder'' pb = Inr x5"
      "truthy x5 \<longleftrightarrow> truthy (at_path pb [''data'', ''reminder'', ''id''])"
      "truthy x5 \<longrightarrow> x5 = at_path pb [''data'', ''reminder'', ''id'']"
    using sub [of "''reminder''"] by blast
  obtain x6 where x6: "data_sub_id ''role'' pb = Inr x6"
      "truthy x6 \<longleftrightarrow> truthy (at_path pb [''data'', ''role'', ''id''])"
      "truthy x6 \<longrightarrow> x6 = at_path pb [''data'', ''role'', ''id'']"
    using sub [of "''role''"] by blast
  show ?thesis
    unfolding payload_walk_def first_present_def payload_paths_def
    using x0 x1 x2 x3 x4 x5 x6 by (simp add: bind_err_def)
qed

lemma payload_walk_null: "pb = JNull \<or> pb = JUndefined \<Longrightarrow> payload_walk pb = Inl TypeError \<and> first_present pb = None"
  by (auto simp: payload_walk_def data_id_def bind_err_def first_present_def payload_paths_def at_path_def lookup_def)

lemma from_body_first_present:
  "P s = Inr pb \<Longrightarrow> from_body P s = (case first_present pb of Some v \<Rightarrow> v | None \<Rightarrow> JStr ''unknown'')"
  using payload_walk_first_present [of pb] payload_walk_null [of pb]
  by (cases "pb = JNull \<or> pb = JUndefined") (auto simp: from_body_def bind_err_def split: option.splits)

lemma case_returns:
  "fst p = Inr () \<Longrightarrow> (case p of (Inl e, w) \<Rightarrow> f e w | (Inr x, w) \<Rightarrow> g x w) = g () (snd p)"
  by (cases p) (auto split: sum.splits)

lemma changePassword_ignores_store:
  "fst (changePassword cmp hash e req body (w\<lparr>rejects := down\<rparr>)) = fst (changePassword cmp hash e req body w)"
  by (simp add: changePassword_def internal_error_def case_returns createAuditLog_returns Let_def
        split: option.splits jsval.splits)

subsection \<open>The recorder never throws\<close>

lemma changePassword_world0:
  "status (fst (changePassword plain_compare plain_hash env0 req_plain password_body world0)) = 200"
  by (simp add: changePassword_def world0_def req_plain_def admin_def password_body_def
        joi_object_def changePasswordSchema_def List.map_filter_def own_prop_def eric_def
        plain_compare_def str_of_def case_returns createAuditLog_returns Let_def)

text \<open>
  Claim C1. Whatever the state of the Event Store, also one that rejects the insert,
  \<open>createAuditLog\<close> returns to its caller and does not throw. Consequently the response
  of a business operation that records through it (\<open>changePassword\<close>) is the same
  whether or not the store rejects the audit insert.
\<close>

theorem createAuditLog_never_throws:
  "fst (createAuditLog e uid action targetType targetId ipAddress w) = Inr ()
   \<and> fst (changePassword cmp hash e req body (w\<lparr>rejects := down\<rparr>))
       = fst (changePassword cmp hash e req body w)"
  by (simp add: createAuditLog_returns changePassword_ignores_store)

theorem createAuditLog_never_throws_witness:
  "fst (createAuditLog env0 ''u-1'' ''USER_LOGIN'' ''User'' (JStr ''u-1'') ''10.0.0.7''
          (world0\<lparr>rejects := store_down\<rparr>)) = Inr ()
   \<and> audit_logs (snd (createAuditLog env0 ''u-1'' ''USER_LOGIN'' ''User'' (JStr ''u-1'') ''10.0.0.7''
          (world0\<lparr>rejects := store_down\<rparr>))) = []
   \<and> status (fst (changePassword plain_compare plain_hash env0 req_plain password_body
          (world0\<lparr>rejects := store_down\<rparr>))) = 200"
  using createAuditLog_never_throws [of env0 "''u-1''" "''USER_LOGIN''" "''User''" "JStr ''u-1''"
      "''10.0.0.7''" "world0\<lparr>rejects := store_down\<rparr>"]
    createAuditLog_never_throws [where w = world0 and down = store_down and cmp = plain_compare
      and hash = plain_hash and e = env0 and req = req_plain and body = password_body]
    changePassword_world0
  by (simp add: createAuditLog_def AuditLog_create_def store_down_def world0_def console_error_def)

subsection \<open>Target resolution\<close>

lemma param_simps:
  "param req_plain k = None"
  "param req_with_id ''id'' = Some ''p-1''"
  "param req_with_stationId ''id'' = None"
  "param req_with_stationId ''stationId'' = Some ''s-9''"
  "param req_with_userId ''id'' = None"
  "param req_with_userId ''stationId'' = None"
  "param req_with_userId ''userId'' = Some ''u-9''"
  by (simp_all add: param_def req_plain_def req_with_id_def req_with_stationId_def req_with_userId_def)

lemma req_plain_simps:
  "user req_plain = Some admin"
  "userId admin = ''u-1''"
  "getClientIP req_plain = ''10.0.0.7''"
  "statusCode ok_response = 200"
  "statusCode created_response = 201"
  by (simp_all add: req_plain_def admin_def getClientIP_def or_else_def ok_response_def
        created_response_def)

lemma reminder_text_nonempty: "reminder_text \<noteq> []"
  by (simp add: reminder_text_def)

lemma first_present_reminder: "first_present reminder_payload = Some (JStr ''r-1'')"
  by (simp add: first_present_def payload_paths_def at_path_def lookup_def own_prop_def reminder_payload_def)

text \<open>
  Claim C2. The target id is resolved by strict precedence: the result of the resolver
  of the caller when one is given; otherwise the path parameter \<open>id\<close>, then \<open>stationId\<close>,
  then \<open>userId\<close>, whatever the body holds; otherwise, for a body that parses, the first
  present (truthy) value among the seven nested locations, and \<open>unknown\<close> when there is
  none. The resolved value is the target id of the call that the adapter starts.
\<close>

theorem target_resolution_precedence:
  "(f req res = Inr v \<longrightarrow> resolve_targetId P (Some f) req res body = Inr (JStr v))
   \<and> (param req ''id'' = Some v \<longrightarrow> resolve_targetId P None req res body = Inr (JStr v))
   \<and> (param req ''id'' = None \<and> param req ''stationId'' = Some v
        \<longrightarrow> resolve_targetId P None req res body = Inr (JStr v))
   \<and> (param req ''id'' = None \<and> param req ''stationId'' = None \<and> param req ''userId'' = Some v
        \<longrightarrow> resolve_targetId P None req res body = Inr (JStr v))
   \<and> (param req ''id'' = None \<and> param req ''stationId'' = None \<and> param req ''userId'' = None
        \<and> s \<noteq> [] \<and> P s = Inr parsedBody
        \<longrightarrow> resolve_targetId P None req res (JStr s)
            = Inr (case first_present parsedBody of Some x \<Rightarrow> x | None \<Rightarrow> JStr ''unknown''))
   \<and> (200 \<le> statusCode res \<and> statusCode res < 300 \<and> user req = Some u \<and> userId u \<noteq> []
        \<and> resolve_targetId P g req res body = Inr x
        \<longrightarrow> pending (snd (auditLog P a t g req res body w)) = pending w @ [call_of req u a t x])"
  by (simp add: resolve_targetId_def from_body_first_present auditLog_def call_of_def)

theorem target_resolution_precedence_witness:
  "resolve_targetId json_table (Some fixed_resolver) req_with_id ok_response (JStr reminder_text) = Inr (JStr ''t-7'')
   \<and> resolve_targetId json_table None req_with_id ok_response (JStr reminder_text) = Inr (JStr ''p-1'')
   \<and> resolve_targetId json_table None req_with_stationId ok_response (JStr reminder_text) = Inr (JStr ''s-9'')
   \<and> resolve_targetId json_table None req_with_userId ok_response (JStr reminder_text) = Inr (JStr ''u-9'')
   \<and> resolve_targetId json_table None req_plain ok_response (JStr reminder_text) = Inr (JStr ''r-1'')
   \<and> pending (snd (auditLog json_table ''REMINDER_CREATED'' ''BackupReminder'' None req_plain
          ok_response (JStr reminder_text) world0))
       = [\<lparr> call_userId = ''u-1'', call_action = ''REMINDER_CREATED'',
            call_targetType = ''BackupReminder'', call_targetId = JStr ''r-1'',
            call_ipAddress = ''10.0.0.7'' \<rparr>]"
  using target_resolution_precedence [where f = fixed_resolver and req = req_with_id and res = ok_response
      and v = "''t-7''" and P = json_table and body = "JStr reminder_text"]
    target_resolution_precedence [where req = req_with_id and v = "''p-1''" and P = json_table
      and res = ok_response and body = "JStr reminder_text"]
    target_resolution_precedence [where req = req_with_stationId and v = "''s-9''" and P = json_table
      and res = ok_response and body = "JStr reminder_text"]
    target_resolution_precedence [where req = req_with_userId and v = "''u-9''" and P = json_table
      and res = ok_response and body = "JStr reminder_text"]
    target_resolution_precedence [where req = req_plain and P = json_table and s = reminder_text
      and parsedBody = reminder_payload and res = ok_response and u = admin and g = None
      and body = "JStr reminder_text" and x = "JStr ''r-1''" and a = "''REMINDER_CREATED''"
      and t = "''BackupReminder''" and w = world0]
  by (simp add: param_simps req_plain_simps fixed_resolver_def json_table_def first_present_reminder
        reminder_text_nonempty call_of_def world0_def)

lemma from_body_reminder: "from_body json_table reminder_text = JStr ''r-1''"
  using from_body_first_present [of json_table reminder_text reminder_payload]
  by (simp add: json_table_def first_present_reminder)

lemma resolve_without_resolver_total: "\<exists>v. resolve_targetId P None req res body = Inr v"
  by (simp add: resolve_targetId_def split: option.splits jsval.splits)

lemma from_body_parse_error: "P s = Inl err \<Longrightarrow> from_body P s = JStr ''unknown''"
  by (simp add: from_body_def bind_err_def)

text \<open>
  Claim C3, as amended. The adapter hands the body to the original \<open>send\<close> unchanged on
  every input, and resolution without a resolver of the caller always yields a value. A
  body that does not parse gives the target id \<open>unknown\<close>, and the call is still
  started. When the resolver of the caller throws, the adapter catches the error,
  writes it to the console and starts no call.
\<close>

theorem resolution_failure_contained:
  "fst (auditLog P a t g req res body w) = body
   \<and> (\<exists>v. resolve_targetId P None req res body = Inr v)
   \<and> (200 \<le> statusCode res \<and> statusCode res < 300 \<and> user req = Some u \<and> userId u \<noteq> []
        \<and> param req ''id'' = None \<and> param req ''stationId'' = None \<and> param req ''userId'' = None
        \<and> s \<noteq> [] \<and> P s = Inl err
        \<longrightarrow> pending (snd (auditLog P a t None req res (JStr s) w))
            = pending w @ [call_of req u a t (JStr ''unknown'')])
   \<and> (200 \<le> statusCode res \<and> statusCode res < 300 \<and> user req = Some u \<and> userId u \<noteq> []
        \<and> f req res = Inl err
        \<longrightarrow> snd (auditLog P a t (Some f) req res body w)
            = console_error ''Error in audit logging middleware:'' w)"
  using resolve_without_resolver_total [of P req res body]
  by (simp add: auditLog_def resolve_targetId_def from_body_parse_error call_of_def)

theorem resolution_failure_contained_witness:
  "fst (auditLog json_table ''REMINDER_CREATED'' ''BackupReminder'' None req_plain created_response
          (JStr broken_text) world0) = JStr broken_text
   \<and> pending (snd (auditLog json_table ''REMINDER_CREATED'' ''BackupReminder'' None req_plain
          created_response (JStr broken_text) world0))
       = [\<lparr> call_userId = ''u-1'', call_action = ''REMINDER_CREATED'',
            call_targetType = ''BackupReminder'', call_targetId = JStr ''unknown'',
            call_ipAddress = ''10.0.0.7'' \<rparr>]
   \<and> snd (auditLog json_table ''REMINDER_CREATED'' ''BackupReminder'' (Some throwing_resolver)
          req_plain created_response (JStr reminder_text) world0)
       = world0\<lparr>console := [''Error in audit logging middleware:'']\<rparr>"
  using resolution_failure_contained [where P = json_table and a = "''REMINDER_CREATED''"
      and t = "''BackupReminder''" and g = None and req = req_plain and res = created_response
      and body = "JStr broken_text" and w = world0 and u = admin and s = broken_text
      and err = SyntaxError and f = throwing_resolver]
    resolution_failure_contained [where P = json_table and a = "''REMINDER_CREATED''"
      and t = "''BackupReminder''" and g = None and req = req_plain and res = created_response
      and body = "JStr reminder_text" and w = world0 and u = admin and s = broken_text
      and err = "Thrown ''no target''" and f = throwing_resolver]
  by (simp add: param_simps req_plain_simps json_table_def broken_text_def reminder_text_def
        call_of_def world0_def throwing_resolver_def console_error_def)

text \<open>
  Claim C3 as stated fails: with a successful status, an actor and a resolver that
  throws, no call is started.
\<close>

theorem throwing_resolver_counterexample:
  "pending (snd (auditLog json_table ''REMINDER_UPDATED'' ''BackupReminder'' (Some throwing_resolver)
          req_plain ok_response (JStr reminder_text) world0)) = []"
  by (simp add: auditLog_def ok_response_def req_plain_def admin_def resolve_targetId_def
        throwing_resolver_def console_error_def world0_def)

subsection \<open>When the adapter records\<close>

lemma resolve_some: "resolve_targetId P (Some f) req res body = map_sum id JStr (f req res)"
  by (simp add: resolve_targetId_def)

text \<open>
  Claim C4, as amended. The adapter starts a call exactly when the status is at least
  200 and below 300, an actor with a user id is present, and the resolver of the caller,
  if there is one, does not throw; otherwise nothing is started. It never touches the
  Event Store itself, always hands the body on unchanged, and leaves the state as it
  was when no actor is present.
\<close>

theorem dispatch_iff_success_and_actor:
  "fst (auditLog P a t g req res body w) = body
   \<and> ((\<exists>c. pending (snd (auditLog P a t g req res body w)) = pending w @ [c])
        \<longleftrightarrow> (200 \<le> statusCode res \<and> statusCode res < 300 \<and> actor_present req
             \<and> \<not> resolver_throws g req res))
   \<and> (\<not> (200 \<le> statusCode res \<and> statusCode res < 300 \<and> actor_present req
             \<and> \<not> resolver_throws g req res)
        \<longrightarrow> pending (snd (auditLog P a t g req res body w)) = pending w)
   \<and> audit_logs (snd (auditLog P a t g req res body w)) = audit_logs w
   \<and> (\<not> actor_present req \<longrightarrow> snd (auditLog P a t g req res body w) = w)"
proof (cases g)
  case None
  obtain v where "resolve_targetId P None req res body = Inr v"
    using resolve_without_resolver_total by blast
  with None show ?thesis
    by (auto simp: auditLog_def actor_present_def resolver_throws_def console_error_def
          split: option.splits)
next
  case (Some f)
  show ?thesis
    by (cases "f req res")
       (auto simp: Some auditLog_def actor_present_def resolver_throws_def resolve_some
          console_error_def split: option.splits)
qed

theorem dispatch_iff_success_and_actor_witness:
  "pending (snd (auditLog json_table ''REMINDER_CREATED'' ''BackupReminder'' None req_plain
        created_response (JStr reminder_text) world0)) \<noteq> []
   \<and> snd (auditLog json_table ''REMINDER_CREATED'' ''BackupReminder'' None req_anonymous
        created_response (JStr reminder_text) world0) = world0
   \<and> fst (auditLog json_table ''REMINDER_CREATED'' ''BackupReminder'' None req_anonymous
        created_response (JStr reminder_text) world0) = JStr reminder_text"
  using dispatch_iff_success_and_actor [where P = json_table and a = "''REMINDER_CREATED''"
      and t = "''BackupReminder''" and g = None and req = req_plain and res = created_response
      and body = "JStr reminder_text" and w = world0]
    dispatch_iff_success_and_actor [where P = json_table and a = "''REMINDER_CREATED''"
      and t = "''BackupReminder''" and g = None and req = req_anonymous and res = created_response
      and body = "JStr reminder_text" and w = world0]
  by (auto simp: req_plain_simps actor_present_def resolver_throws_def req_anonymous_def admin_def)

text \<open>
  Claim C4 as stated fails: a successful status and a present actor, and yet no call,
  because the resolver throws.
\<close>

theorem success_and_actor_without_event_counterexample:
  "200 \<le> statusCode created_response \<and> statusCode created_response < 300
   \<and> actor_present req_with_id
   \<and> pending (snd (auditLog json_table ''REMINDER_RESOLVED'' ''BackupReminder''
          (Some throwing_resolver) req_with_id created_response (JStr reminder_text) world0)) = []"
  by (simp add: auditLog_def created_response_def req_with_id_def req_plain_def admin_def
        actor_present_def resolve_targetId_def throwing_resolver_def console_error_def world0_def)

text \<open>
  Claim C10, as amended. In one run of the wrapper with a successful status, an actor,
  no resolver and no path parameter, a body that is not a string gives the target id
  \<open>unknown\<close>, also when the body holds an id at one of the nested locations. A call of
  \<open>res.send\<close> with a body that Express writes as it is (a Buffer, \<open>null\<close>) therefore
  starts one call, with \<open>unknown\<close>. A call of \<open>res.send\<close> with an object runs the wrapper
  twice and starts two calls: the first with \<open>unknown\<close>, the second with the target id
  resolved from the serialised body.
\<close>

theorem non_string_body_recording:
  "(200 \<le> statusCode res \<and> statusCode res < 300 \<and> user req = Some u \<and> userId u \<noteq> []
      \<and> param req ''id'' = None \<and> param req ''stationId'' = None \<and> param req ''userId'' = None
      \<and> \<not> is_string body
      \<longrightarrow> resolve_targetId P None req res body = Inr (JStr ''unknown'')
        \<and> pending (snd (auditLog P a t None req res body w))
            = pending w @ [call_of req u a t (JStr ''unknown'')])
   \<and> (200 \<le> statusCode res \<and> statusCode res < 300 \<and> user req = Some u \<and> userId u \<noteq> []
      \<and> param req ''id'' = None \<and> param req ''stationId'' = None \<and> param req ''userId'' = None
      \<and> \<not> is_string body \<and> \<not> through_json body
      \<longrightarrow> pending (snd (res_send S P a t None req res body w))
            = pending w @ [call_of req u a t (JStr ''unknown'')])
   \<and> (200 \<le> statusCode res \<and> statusCode res < 300 \<and> user req = Some u \<and> userId u \<noteq> []
      \<and> param req ''id'' = None \<and> param req ''stationId'' = None \<and> param req ''userId'' = None
      \<and> through_json body \<and> S body \<noteq> []
      \<longrightarrow> pending (snd (res_send S P a t None req res body w))
            = pending w @ [call_of req u a t (JStr ''unknown''),
                           call_of req u a t (from_body P (S body))])"
  by (cases body) (simp_all add: res_send_def auditLog_def resolve_targetId_def is_string_def call_of_def)

theorem non_string_body_recording_witness:
  "first_present reminder_payload = Some (JStr ''r-1'')
   \<and> pending (snd (auditLog json_table ''REMINDER_CREATED'' ''BackupReminder'' None req_plain
          created_response reminder_payload world0))
       = [\<lparr> call_userId = ''u-1'', call_action = ''REMINDER_CREATED'',
            call_targetType = ''BackupReminder'', call_targetId = JStr ''unknown'',
            call_ipAddress = ''10.0.0.7'' \<rparr>]
   \<and> pending (snd (res_send stringify_table json_table ''REMINDER_CREATED'' ''BackupReminder'' None
          req_plain created_response (JBuffer [123, 125]) world0))
       = [\<lparr> call_userId = ''u-1'', call_action = ''REMINDER_CREATED'',
            call_targetType = ''BackupReminder'', call_targetId = JStr ''unknown'',
            call_ipAddress = ''10.0.0.7'' \<rparr>]
   \<and> pending (snd (res_send stringify_table json_table ''REMINDER_CREATED'' ''BackupReminder'' None
          req_plain created_response reminder_payload world0))
       = [\<lparr> call_userId = ''u-1'', call_action = ''REMINDER_CREATED'',
            call_targetType = ''BackupReminder'', call_targetId = JStr ''unknown'',
            call_ipAddress = ''10.0.0.7'' \<rparr>,
          \<lparr> call_userId = ''u-1'', call_action = ''REMINDER_CREATED'',
            call_targetType = ''BackupReminder'', call_targetId = JStr ''r-1'',
            call_ipAddress = ''10.0.0.7'' \<rparr>]"
  using non_string_body_recording [where res = created_response and req = req_plain and u = admin
      and body = reminder_payload and P = json_table and a = "''REMINDER_CREATED''"
      and t = "''BackupReminder''" and w = world0 and S = stringify_table]
    non_string_body_recording [where res = created_response and req = req_plain and u = admin
      and body = "JBuffer [123, 125]" and P = json_table and a = "''REMINDER_CREATED''"
      and t = "''BackupReminder''" and w = world0 and S = stringify_table]
    from_body_reminder
  by (simp add: req_plain_simps param_simps is_string_def reminder_payload_def call_of_def world0_def
        first_present_reminder [unfolded reminder_payload_def] stringify_table_def
        reminder_text_nonempty)

text \<open>
  Claim C10 as stated fails: a handler behind the adapter passes an object to
  \<open>res.send\<close>, with no resolver and no path parameter, and an event with the id found in
  the body is recorded after the one with \<open>unknown\<close>.
\<close>

theorem object_body_counterexample:
  "\<not> is_string reminder_payload
   \<and> map call_targetId
        (pending (snd (res_send stringify_table json_table ''REMINDER_CREATED'' ''BackupReminder''
           None req_plain created_response reminder_payload world0)))
      = [JStr ''unknown'', JStr ''r-1'']"
  using from_body_reminder
  by (simp add: res_send_def auditLog_def resolve_targetId_def req_plain_simps param_simps
        is_string_def reminder_payload_def stringify_table_def reminder_text_nonempty world0_def)

subsection \<open>One event per operation\<close>

lemma logAuditEvent_given_a_string: "logAuditEvent e (ReqString s) a t i w = (Inr (), w)"
  by (simp add: logAuditEvent_def)

lemma createStation_never_records:
  "audit_logs (snd (createStation e sid req body w)) = audit_logs w
   \<and> pending (snd (createStation e sid req body w)) = pending w"
  by (simp add: createStation_def logAuditEvent_def internal_error_def console_error_def Let_def
        split: option.splits jsval.splits)

text \<open>
  Claim C5 fails on \<open>createStation\<close>: an authenticated actor creates a station, the
  response is 201 and the station is stored, but no audit event is created and none is
  pending, because \<open>logAuditEvent\<close> receives the user id where it expects the request.
\<close>

theorem createStation_creates_no_event:
  "actor_present req_plain
   \<and> status (fst (createStation env0 ''s-1'' req_plain station_body world0)) = 201
   \<and> map station_id (stations (snd (createStation env0 ''s-1'' req_plain station_body world0))) = [''s-1'']
   \<and> audit_logs (snd (createStation env0 ''s-1'' req_plain station_body world0)) = []
   \<and> pending (snd (createStation env0 ''s-1'' req_plain station_body world0)) = []
   \<and> audit_logs (settle env0 (snd (createStation env0 ''s-1'' req_plain station_body world0))) = []"
  by (simp add: createStation_def joi_object_def createStationSchema_def List.map_filter_def
        own_prop_def station_body_def world0_def req_plain_def admin_def actor_present_def
        logAuditEvent_def str_of_def settle_def Let_def)

lemma reminder_created_recorded_once:
  "map (\<lambda>r. (log_action r, log_targetType r, log_targetId r))
     (audit_logs (settle env0 (snd (auditReminderCreated json_table req_plain created_response
        (JStr reminder_text) world0))))
   = [(''REMINDER_CREATED'', ''BackupReminder'', JStr ''r-1'')]"
  by (simp add: auditReminderCreated_def auditLog_def req_plain_simps param_simps resolve_targetId_def
        from_body_reminder reminder_text_nonempty settle_def createAuditLog_def AuditLog_create_def
        world0_def store_up_def Let_def)

subsection \<open>The queries of the list\<close>











lemma list_page_fails:
  "those (map evaluable (whereClause v)) = None \<Longrightarrow> list_page v w = Inl DatabaseError"
  by (simp add: list_page_def findAndCountAll_def)



lemma if_given_present: "\<not> absent x \<Longrightarrow> \<exists>s. if_given x f = [f s]"
  by (auto simp: if_given_def absent_def split: option.splits)

lemma those_append: "those (xs @ ys) = (case those xs of None \<Rightarrow> None
    | Some as \<Rightarrow> (case those ys of None \<Rightarrow> None | Some bs \<Rightarrow> Some (as @ bs)))"
  by (induction xs) (auto split: option.splits)



lemma whereClause_fails:
  assumes "\<not> (absent (v_action v) \<and> absent (search v))"
  shows "those (map evaluable (whereClause v)) = None"
proof -
  have "(\<exists>s. if_given (v_action v) (\<lambda>a. ActionILike (''%'' @ a @ ''%'')) = [ActionILike s])
        \<or> (\<exists>s. if_given (search v) (\<lambda>a. SearchILike (''%'' @ a @ ''%'')) = [SearchILike s])"
    using assms
      if_given_present [of "v_action v" "\<lambda>a. ActionILike (''%'' @ a @ ''%'')"]
      if_given_present [of "search v" "\<lambda>a. SearchILike (''%'' @ a @ ''%'')"]
    by blast
  then show ?thesis
    by (auto simp: whereClause_def those_append split: option.splits)
qed

lemma iLike_query_fails:
  assumes "getAuditLogsSchema (is_uuid L) (joi_view L q) = Inr v" "db_up w"
    "\<not> (absent (v_action v) \<and> absent (search v))"
  shows "status (fst (getAuditLogs L q w)) = 500"
  using assms whereClause_fails [OF assms(3)]
  by (simp add: getAuditLogs_def list_page_fails internal_error_def failure_def)




lemmas schema_eval = getAuditLogsSchema_def joi_view_def converted_def demo_lib_def demo_number_def
  demo_date_def demo_uuid_def joi_integer_def joi_uuid_def joi_text_def joi_date_def bind_err_def
  schema_keys_def




lemma schema_with_action:
  "getAuditLogsSchema (is_uuid demo_lib) (joi_view demo_lib with_action) = Inr with_action_value"
  by (simp add: schema_eval with_action_def with_action_value_def)


lemma world1_simps:
  "db_up world1"
  "audit_logs world1 = [login_event, password_event, reminder_event]"
  "users world1 = [eric]"
  by (simp_all add: world1_def world0_def)


lemma event_simps:
  "log_timestamp login_event = 1752000000000"
  "log_timestamp password_event = 1752100000000"
  "log_timestamp reminder_event = 1752200000000"
  "log_userId login_event = ''u-1''" "log_userId password_event = ''u-1''"
  "log_userId reminder_event = ''u-1''"
  "log_id login_event = ''a-1''" "log_id password_event = ''a-2''" "log_id reminder_event = ''a-3''"
  by (simp_all add: login_event_def password_event_def reminder_event_def)





lemma eric_simps: "user_id eric = ''u-1''"
  by (simp add: eric_def)


lemma pages_1_2: "[Suc 0..<3] = [Suc 0, 2]"
  by (simp add: upt_rec)



subsection \<open>Pagination\<close>







subsection \<open>A start date after the end date\<close>






text \<open>A query with an \<open>action\<close> filter fails in the database.\<close>

lemma where_with_action:
  "those (map evaluable (whereClause with_action_value)) = None"
  by (simp add: whereClause_def with_action_value_def if_given_def)

lemma action_filter_answers_500:
  "status (fst (getAuditLogs demo_lib with_action world1)) = 500"
  by (simp add: getAuditLogs_def schema_with_action world1_simps(1)
        list_page_fails [OF where_with_action] internal_error_def failure_def)







subsection \<open>The list of one actor\<close>


lemma by_user_params:
  "param req_user_u1 ''userId'' = Some ''u-1''"
  "param req_user_missing ''userId'' = Some ''u-404''"
  "param req_event_a2 ''id'' = Some ''a-2''"
  by (simp_all add: param_def req_user_u1_def req_user_missing_def req_event_a2_def req_plain_def)











lemma reads_keep_store:
  "audit_logs (snd (getAuditLogs L q w)) = audit_logs w"
  "audit_logs (snd (getAuditLogById req w)) = audit_logs w"
  "audit_logs (snd (getAuditLogsByUser L req q w)) = audit_logs w"
  "audit_logs (snd (getAuditLogStatistics L e q w)) = audit_logs w"
  by (simp_all add: getAuditLogs_def getAuditLogById_def getAuditLogsByUser_def
        getAuditLogStatistics_def internal_error_def console_error_def Let_def
        split: sum.splits option.splits prod.splits jsnum.splits)

lemma createAuditLog_appends:
  "take (length (audit_logs w)) (audit_logs (snd (createAuditLog e uid a t tid ip w))) = audit_logs w"
  by (simp add: createAuditLog_def AuditLog_create_def console_error_def Let_def)

lemma createAuditLog_appends_from:
  "audit_logs w' = audit_logs w \<Longrightarrow>
   take (length (audit_logs w)) (audit_logs (snd (createAuditLog e uid a t tid ip w'))) = audit_logs w"
  using createAuditLog_appends [of w' e uid a t tid ip] by simp

lemma settle_appends:
  "take (length (audit_logs w)) (audit_logs (settle e w)) = audit_logs w"
  by (cases "pending w")
     (simp_all add: settle_def case_returns createAuditLog_returns createAuditLog_appends_from)

lemma logAuditEvent_appends:
  "take (length (audit_logs w)) (audit_logs (snd (logAuditEvent e ra a t i w))) = audit_logs w"
  by (simp add: logAuditEvent_def console_error_def case_returns createAuditLog_returns
        createAuditLog_appends split: req_arg.splits option.splits)

lemma auditLog_keeps_store:
  "audit_logs (snd (auditLog P a t g req res body w)) = audit_logs w"
  by (simp add: auditLog_def console_error_def split: option.splits sum.splits)

lemma changePassword_appends:
  "take (length (audit_logs w)) (audit_logs (snd (changePassword cmp hash e req body w))) = audit_logs w"
  by (simp add: changePassword_def internal_error_def console_error_def case_returns
        createAuditLog_returns createAuditLog_appends_from Let_def split: option.splits jsval.splits)

lemma routes_keep_store:
  "audit_logs (snd (auditLogRoutes L e m path req q w)) = audit_logs w"
  by (simp add: auditLogRoutes_def case_prod_unfold reads_keep_store split: list.splits)

subsection \<open>Append-only\<close>

text \<open>
  Claim C6. The four handlers of the query engine leave the Event Store as it was, on
  every input, and so does every request to the router of the audit logs, whatever its
  method and path. The operations that write (\<open>createAuditLog\<close>, a pending call completing,
  \<open>logAuditEvent\<close>, \<open>changePassword\<close>) keep every existing event, unchanged and in place:
  they only append. The adapter and \<open>createStation\<close> do not touch the store.
\<close>

theorem event_store_append_only:
  "audit_logs (snd (getAuditLogs L q w)) = audit_logs w
   \<and> audit_logs (snd (getAuditLogById req w)) = audit_logs w
   \<and> audit_logs (snd (getAuditLogsByUser L req q w)) = audit_logs w
   \<and> audit_logs (snd (getAuditLogStatistics L e q w)) = audit_logs w
   \<and> audit_logs (snd (auditLogRoutes L e m path req q w)) = audit_logs w
   \<and> take (length (audit_logs w)) (audit_logs (snd (createAuditLog e uid a t tid ip w))) = audit_logs w
   \<and> take (length (audit_logs w)) (audit_logs (settle e w)) = audit_logs w
   \<and> take (length (audit_logs w)) (audit_logs (snd (logAuditEvent e ra a t i w))) = audit_logs w
   \<and> audit_logs (snd (auditLog P a t g req res body w)) = audit_logs w
   \<and> take (length (audit_logs w)) (audit_logs (snd (changePassword cmp hash e req body w))) = audit_logs w
   \<and> audit_logs (snd (createStation e sid req body w)) = audit_logs w"
  by (simp only: reads_keep_store routes_keep_store createAuditLog_appends settle_appends logAuditEvent_appends
        auditLog_keeps_store changePassword_appends createStation_never_records simp_thms)

lemma getAuditLogById_world1:
  "getAuditLogById req_event_a2 world1 = (ok (password_event, Some eric), world1)"
  by (simp add: getAuditLogById_def by_user_params world1_simps event_simps user_of_def eric_simps)

theorem event_store_append_only_witness:
  "getAuditLogById req_event_a2 world1 = (ok (password_event, Some eric), world1)
   \<and> auditLogRoutes demo_lib env0 DELETE [''a-2''] req_plain [] world1 = (404, world1)
   \<and> auditLogRoutes demo_lib env0 GET [''a-2''] req_plain [] world1 = (200, world1)
   \<and> audit_logs (snd (getAuditLogById req_event_a2 world1))
       = [login_event, password_event, reminder_event]
   \<and> audit_logs (snd (getAuditLogs demo_lib two_per_page world1))
       = [login_event, password_event, reminder_event]
   \<and> audit_logs (snd (getAuditLogStatistics demo_lib env0 [] world1))
       = [login_event, password_event, reminder_event]
   \<and> take 3 (audit_logs (snd (createAuditLog env0 ''u-1'' ''USER_LOGIN'' ''User'' (JStr ''u-1'')
          ''10.0.0.7'' world1))) = [login_event, password_event, reminder_event]
   \<and> length (audit_logs (snd (createAuditLog env0 ''u-1'' ''USER_LOGIN'' ''User'' (JStr ''u-1'')
          ''10.0.0.7'' world1))) = 4"
  using event_store_append_only [where L = demo_lib and q = two_per_page and w = world1
      and req = req_event_a2 and e = env0 and uid = "''u-1''" and a = "''USER_LOGIN''"
      and t = "''User''" and tid = "JStr ''u-1''" and ip = "''10.0.0.7''"]
    event_store_append_only [where L = demo_lib and q = "[]" and w = world1 and e = env0]
    getAuditLogById_world1 getAuditLogById_world1 [unfolded req_event_a2_def]
  by (simp add: world1_simps createAuditLog_def AuditLog_create_def world1_def world0_def
        store_up_def Let_def auditLogRoutes_def ok_def lower_def)

end
